theory Spec2Isabelle
  imports Complex_Main
begin

section \<open>Debts and the arrears classifier\<close>

text \<open>
  The model follows \<^verbatim>\<open>server.js\<close> (the main backend, stored second in
  \<^verbatim>\<open>src/mongo-init/init-mongo.js\<close>). The \<^verbatim>\<open>estado\<close> enum of
  \<^verbatim>\<open>deudaSchema\<close> is a datatype. A JavaScript \<^verbatim>\<open>Date\<close> is its number of
  milliseconds since the epoch, an \<open>int\<close>; \<^verbatim>\<open>hoy - fechaVencimiento\<close> is the difference
  of the two, and \<^verbatim>\<open>Math.floor(x / (1000 * 60 * 60 * 24))\<close> is \<open>div\<close> (which rounds
  towards minus infinity, as \<^verbatim>\<open>Math.floor\<close> does). The quotient of the doubles is the
  exact integer quotient as long as the difference is below \<open>2 ^ 53\<close> milliseconds
  (some 285000 years), which is taken for granted here.

  Of the fields of a debt only those that decide what the handlers modelled below do
  are kept.
\<close>

datatype estado_deuda =
  Pendiente | Mora_temprana | Mora_media | Mora_avanzada | Pagada | Cancelada

record deuda =
  fechaVencimiento :: int
  diasMora :: int
  estado :: estado_deuda

definition ms_por_dia :: int where
  "ms_por_dia = 1000 * 60 * 60 * 24"

text \<open>
  \<^verbatim>\<open>POST /api/deudas\<close>: the body of the handler between \<^verbatim>\<open>new Deuda(req.body)\<close>
  and \<^verbatim>\<open>deuda.save()\<close>. The argument is the document built from the request (with the
  schema defaults \<^verbatim>\<open>diasMora = 0\<close>, \<^verbatim>\<open>estado = 'pendiente'\<close> where the request
  gives none); the result is the document that is saved.
\<close>

definition crear_deuda :: "int \<Rightarrow> deuda \<Rightarrow> deuda" where
  "crear_deuda hoy d =
     (if hoy > fechaVencimiento d then
        (let d1 = d\<lparr>diasMora := (hoy - fechaVencimiento d) div ms_por_dia\<rparr>
         in if diasMora d1 \<le> 30 then d1\<lparr>estado := Mora_temprana\<rparr>
            else if diasMora d1 \<le> 90 then d1\<lparr>estado := Mora_media\<rparr>
            else d1\<lparr>estado := Mora_avanzada\<rparr>)
      else d)"

section \<open>The reclassification job\<close>

text \<open>
  The collection of debts is a list; the \<^verbatim>\<open>_id\<close> of a document is its position, so
  identifiers are unique and \<^verbatim>\<open>Deuda.find\<close> returns the documents in the order of the
  collection. \<^verbatim>\<open>Deuda.findByIdAndUpdate(id, {diasMora, estado})\<close> overwrites the two
  fields of the document at that position, and changes nothing when there is none.
\<close>

type_synonym coleccion_deudas = "deuda list"

definition find_no_pagadas :: "coleccion_deudas \<Rightarrow> (nat \<times> deuda) list" where
  "find_no_pagadas col = filter (\<lambda>(i, d). estado d \<noteq> Pagada) (enumerate 0 col)"

definition findByIdAndUpdate :: "nat \<Rightarrow> int \<Rightarrow> estado_deuda \<Rightarrow> coleccion_deudas \<Rightarrow> coleccion_deudas" where
  "findByIdAndUpdate i dias nuevo col =
     (if i < length col then col[i := (col ! i)\<lparr>diasMora := dias, estado := nuevo\<rparr>] else col)"

text \<open>
  The \<^verbatim>\<open>for (const deuda of deudas)\<close> loop of \<^verbatim>\<open>actualizarDiasMora\<close>. The loop
  reads each debt from the snapshot returned by \<^verbatim>\<open>Deuda.find\<close> and writes to the
  collection. \<open>fallan\<close> is the set of identifiers whose \<^verbatim>\<open>findByIdAndUpdate\<close> is
  rejected by the store: the \<^verbatim>\<open>await\<close> then throws, the loop is left, and the second
  component of the result is \<open>True\<close>. The query \<^verbatim>\<open>Deuda.find\<close> itself is taken to
  succeed.
\<close>

fun bucle_deudas :: "nat set \<Rightarrow> int \<Rightarrow> (nat \<times> deuda) list \<Rightarrow> coleccion_deudas \<Rightarrow> coleccion_deudas \<times> bool" where
  "bucle_deudas fallan hoy [] col = (col, False)"
| "bucle_deudas fallan hoy ((i, d) # resto) col =
     (if hoy > fechaVencimiento d then
        (let dias = (hoy - fechaVencimiento d) div ms_por_dia;
             nuevoEstado = (if dias \<le> 30 then Mora_temprana
                            else if dias \<le> 90 then Mora_media
                            else Mora_avanzada)
         in if i \<in> fallan then (col, True)
            else bucle_deudas fallan hoy resto (findByIdAndUpdate i dias nuevoEstado col))
      else bucle_deudas fallan hoy resto col)"

text \<open>
  What the job writes to the console: \<^verbatim>\<open>console.log\<close> after the loop, or
  \<^verbatim>\<open>console.error\<close> in the \<^verbatim>\<open>catch\<close> that encloses the whole body.
\<close>

datatype registro = Actualizados_correctamente | Error_actualizando

definition actualizarDiasMora :: "nat set \<Rightarrow> int \<Rightarrow> coleccion_deudas \<Rightarrow> coleccion_deudas \<times> registro" where
  "actualizarDiasMora fallan hoy col =
     (case bucle_deudas fallan hoy (find_no_pagadas col) col of
        (col', lanzo) \<Rightarrow> (col', if lanzo then Error_actualizando else Actualizados_correctamente))"


text \<open>
  What the job does to one debt whose update is persisted, and the debts that stop the
  loop: the ones the job tries to update while the store rejects the update.
\<close>

definition reclasificada :: "int \<Rightarrow> deuda \<Rightarrow> deuda" where
  "reclasificada hoy d = (if estado d = Pagada then d else crear_deuda hoy d)"

definition bloquea :: "nat set \<Rightarrow> int \<Rightarrow> nat \<Rightarrow> deuda \<Rightarrow> bool" where
  "bloquea fallan hoy i d \<longleftrightarrow> estado d \<noteq> Pagada \<and> hoy > fechaVencimiento d \<and> i \<in> fallan"

section \<open>Templates and their selection\<close>

text \<open>
  \<^verbatim>\<open>plantillaSchema\<close> restricts \<^verbatim>\<open>tipo\<close> and \<^verbatim>\<open>tono\<close> to an enum, so a stored
  template carries a value of a datatype; a request carries whatever strings its body
  holds, and the query compares the two as strings.
\<close>

datatype tipo_canal = Email | Sms | Whatsapp

datatype tipo_tono = Amigable | Formal | Urgente | Legal

fun nombre_canal :: "tipo_canal \<Rightarrow> string" where
  "nombre_canal Email = ''email''"
| "nombre_canal Sms = ''sms''"
| "nombre_canal Whatsapp = ''whatsapp''"

fun nombre_tono :: "tipo_tono \<Rightarrow> string" where
  "nombre_tono Amigable = ''amigable''"
| "nombre_tono Formal = ''formal''"
| "nombre_tono Urgente = ''urgente''"
| "nombre_tono Legal = ''legal''"

record plantilla =
  nombre_p :: string
  tipo_p :: tipo_canal
  tono_p :: tipo_tono
  diasMora_p :: int
  cuerpo :: string
  activa :: bool

text \<open>
  \<^verbatim>\<open>Plantilla.findOne({tipo, tono, diasMora: {$lte: deuda.diasMora}, activa: true})
  .sort({diasMora: -1})\<close>: the filter, then the first document of the matches sorted by
  descending \<^verbatim>\<open>diasMora\<close>. The store does not say which of several matches with the
  same \<^verbatim>\<open>diasMora\<close> comes first; the model takes the earliest in the collection.
\<close>

definition coincide :: "string \<Rightarrow> string \<Rightarrow> int \<Rightarrow> plantilla \<Rightarrow> bool" where
  "coincide tipo tono dias p \<longleftrightarrow>
     nombre_canal (tipo_p p) = tipo \<and> nombre_tono (tono_p p) = tono \<and> diasMora_p p \<le> dias \<and> activa p"

fun mayor_diasMora :: "plantilla list \<Rightarrow> plantilla option" where
  "mayor_diasMora [] = None"
| "mayor_diasMora (p # ps) =
     (case mayor_diasMora ps of
        None \<Rightarrow> Some p
      | Some q \<Rightarrow> if diasMora_p p < diasMora_p q then Some q else Some p)"

definition findOne_plantilla :: "plantilla list \<Rightarrow> string \<Rightarrow> string \<Rightarrow> int \<Rightarrow> plantilla option" where
  "findOne_plantilla catalogo tipo tono dias = mayor_diasMora (filter (coincide tipo tono dias) catalogo)"

section \<open>Rendering\<close>

text \<open>
  \<^verbatim>\<open>String.prototype.replace\<close> with a string pattern: the first occurrence of the
  pattern is replaced, and in the replacement text \<^verbatim>\<open>$$\<close> stands for a dollar sign,
  \<^verbatim>\<open>$&\<close> for the matched text, \<^verbatim>\<open>$`\<close> for the text before the match and
  \<^verbatim>\<open>$'\<close> for the text after it; a \<^verbatim>\<open>$\<close> before anything else stands for itself,
  since a string pattern has no capture groups. \<open>partir\<close> splits a string around the
  first occurrence of the pattern.
\<close>

fun partir :: "string \<Rightarrow> string \<Rightarrow> (string \<times> string) option" where
  "partir pat [] = (if pat = [] then Some ([], []) else None)"
| "partir pat (c # cs) =
     (if take (length pat) (c # cs) = pat then Some ([], drop (length pat) (c # cs))
      else (case partir pat cs of
              None \<Rightarrow> None
            | Some (antes, despues) \<Rightarrow> Some (c # antes, despues)))"

fun sustitucion :: "string \<Rightarrow> string \<Rightarrow> string \<Rightarrow> string \<Rightarrow> string" where
  "sustitucion hallado antes despues [] = []"
| "sustitucion hallado antes despues [c] = [c]"
| "sustitucion hallado antes despues (c # e # r) =
     (if c = CHR ''$'' then
        (if e = CHR ''$'' then CHR ''$'' # sustitucion hallado antes despues r
         else if e = CHR ''&'' then hallado @ sustitucion hallado antes despues r
         else if e = CHR 0x60 then antes @ sustitucion hallado antes despues r
         else if e = CHR 0x27 then despues @ sustitucion hallado antes despues r
         else c # sustitucion hallado antes despues (e # r))
      else c # sustitucion hallado antes despues (e # r))"

definition replace_js :: "string \<Rightarrow> string \<Rightarrow> string \<Rightarrow> string" where
  "replace_js pat por s =
     (case partir pat s of
        None \<Rightarrow> s
      | Some (antes, despues) \<Rightarrow> antes @ sustitucion pat antes despues por @ despues)"

text \<open>
  The decimal text of an integer, which is what \<^verbatim>\<open>replace\<close> makes of the number
  \<^verbatim>\<open>deuda.diasMora\<close> (for the magnitudes a count of days has).
\<close>

fun digitos :: "nat \<Rightarrow> string" where
  "digitos n =
     (if n < 10 then [''0123456789'' ! n]
      else digitos (n div 10) @ [''0123456789'' ! (n mod 10)])"

declare digitos.simps [simp del]

definition texto_entero :: "int \<Rightarrow> string" where
  "texto_entero k = (if k < 0 then CHR ''-'' # digitos (nat (- k)) else digitos (nat k))"

record cliente =
  nombre :: string
  email :: string
  telefono :: string

text \<open>
  What the outside world returns during one call of the dispatch handler: the texts
  produced by the locale-dependent \<^verbatim>\<open>deuda.monto.toLocaleString()\<close> and
  \<^verbatim>\<open>deuda.fechaVencimiento.toLocaleDateString()\<close>, and the outcome that each of the
  three provider calls would have (it resolves, or it rejects with a message):
  \<^verbatim>\<open>emailTransporter.sendMail\<close>, and \<^verbatim>\<open>twilioClient.messages.create\<close> with an SMS
  sender and with a WhatsApp sender.
\<close>

datatype resultado_envio = Envio_ok | Envio_falla string

record entorno =
  montoLocal :: string
  fechaLocal :: string
  sendMail :: resultado_envio
  create_sms :: resultado_envio
  create_whatsapp :: resultado_envio

definition generar_contenido :: "entorno \<Rightarrow> plantilla \<Rightarrow> cliente \<Rightarrow> deuda \<Rightarrow> string" where
  "generar_contenido ent p c d =
     replace_js ''{fecha_vencimiento}'' (fechaLocal ent)
       (replace_js ''{dias_mora}'' (texto_entero (diasMora d))
         (replace_js ''{monto}'' (CHR ''$'' # montoLocal ent)
           (replace_js ''{nombre}'' (nombre c) (cuerpo p))))"

section \<open>Dispatch\<close>

datatype estado_comunicacion = Enviado | Entregado | Leido | Respondido | Con_error

text \<open>
  What a request gives as \<^verbatim>\<open>campaniaId\<close>, a field that \<^verbatim>\<open>comunicacionSchema\<close>
  declares as an \<^verbatim>\<open>ObjectId\<close>: the identifier of a campaign, or a text that does not
  cast to an \<^verbatim>\<open>ObjectId\<close> (a text that is not empty, so that \<^verbatim>\<open>if (campaniaId)\<close>
  holds for it as for an identifier).
\<close>

datatype referencia = Id nat | Malformado string

record comunicacion =
  clienteId :: nat
  deudaId :: nat
  tipo :: string
  contenido :: string
  tono :: string
  estado_com :: estado_comunicacion
  campaniaId :: "referencia option"

text \<open>
  \<^verbatim>\<open>comunicacion.save()\<close> validates the document against \<^verbatim>\<open>comunicacionSchema\<close>
  and rejects when it is not valid: \<^verbatim>\<open>tipo\<close> and \<^verbatim>\<open>tono\<close> must be values of their
  enum, \<^verbatim>\<open>contenido\<close> is required, which an empty text does not satisfy, and
  \<^verbatim>\<open>campaniaId\<close> must cast to an \<^verbatim>\<open>ObjectId\<close>. (The customer and the debt of a
  document built by the handler have been found by their identifiers, and
  \<^verbatim>\<open>estado\<close> is set by the handler to a value of its enum.)
\<close>

definition castable :: "referencia option \<Rightarrow> bool" where
  "castable r = (case r of None \<Rightarrow> True | Some (Id i) \<Rightarrow> True | Some (Malformado s) \<Rightarrow> False)"

definition valida :: "comunicacion \<Rightarrow> bool" where
  "valida com \<longleftrightarrow>
     tipo com \<in> set (map nombre_canal [Email, Sms, Whatsapp])
     \<and> tono com \<in> set (map nombre_tono [Amigable, Formal, Urgente, Legal])
     \<and> contenido com \<noteq> []
     \<and> castable (campaniaId com)"

record metricas_campania =
  enviados :: nat
  entregados :: nat
  leidos :: nat
  respondidos :: nat
  pagos :: nat

record campania =
  nombre_camp :: string
  metricas :: metricas_campania

text \<open>
  The collections the handlers use. As for debts, each collection is a list and the
  \<^verbatim>\<open>_id\<close> of a document is its position; \<^verbatim>\<open>findById\<close> yields \<^verbatim>\<open>null\<close> (here
  \<open>None\<close>) when there is no such document. In the dispatch handler the store is taken
  to be reachable: it answers every query, and it rejects a write only when the document
  fails the validation of its schema. The customer and debt identifiers of a request are
  identifiers, and its channel and tone are texts.
\<close>

record almacen =
  clientes :: "cliente list"
  deudas :: "deuda list"
  plantillas :: "plantilla list"
  comunicaciones :: "comunicacion list"
  campanias :: "campania list"

definition findById :: "'a list \<Rightarrow> nat \<Rightarrow> 'a option" where
  "findById col i = (if i < length col then Some (col ! i) else None)"

record peticion =
  clienteId_r :: nat
  deudaId_r :: nat
  tipo_r :: string
  tono_r :: string
  campaniaId_r :: "referencia option"

text \<open>
  The writes of a call that the store carries out, in order: a \<^verbatim>\<open>comunicacion.save()\<close>
  that passes validation and inserts the new document, and
  \<^verbatim>\<open>Campania.findByIdAndUpdate(campaniaId, {$inc: {'metricas.enviados': 1,
  'metricas.entregados': 1}})\<close>, which changes nothing when there is no such campaign.
\<close>

datatype escritura = Guardar_comunicacion comunicacion | Incrementar_metricas nat



definition inc_enviados_entregados :: "campania \<Rightarrow> campania" where
  "inc_enviados_entregados c =
     c\<lparr>metricas := (metricas c)\<lparr>enviados := enviados (metricas c) + 1,
                                 entregados := entregados (metricas c) + 1\<rparr>\<rparr>"

fun aplicar :: "almacen \<Rightarrow> escritura \<Rightarrow> almacen" where
  "aplicar alm (Guardar_comunicacion c) = alm\<lparr>comunicaciones := comunicaciones alm @ [c]\<rparr>"
| "aplicar alm (Incrementar_metricas i) =
     (if i < length (campanias alm)
      then alm\<lparr>campanias := (campanias alm)[i := inc_enviados_entregados (campanias alm ! i)]\<rparr>
      else alm)"

text \<open>
  The \<^verbatim>\<open>switch (tipo)\<close> of the handler: the provider call made for the requested
  channel and its outcome, or \<open>None\<close> when no \<^verbatim>\<open>case\<close> applies (the switch has no
  \<^verbatim>\<open>default\<close>).
\<close>

definition invocar_canal :: "entorno \<Rightarrow> string \<Rightarrow> resultado_envio option" where
  "invocar_canal ent canal =
     (if canal = ''email'' then Some (sendMail ent)
      else if canal = ''sms'' then Some (create_sms ent)
      else if canal = ''whatsapp'' then Some (create_whatsapp ent)
      else None)"

text \<open>
  The answers of \<^verbatim>\<open>POST /api/comunicaciones/enviar\<close>: \<^verbatim>\<open>res.json({success: true,
  comunicacion})\<close>, or a status with \<^verbatim>\<open>{error, details}\<close>. The \<^verbatim>\<open>error\<close> is one
  of the three texts of the handler or, from the outer \<^verbatim>\<open>catch\<close>, the message of the
  exception caught, here the one of a rejected \<^verbatim>\<open>save\<close>. When no \<^verbatim>\<open>case\<close> of the
  \<^verbatim>\<open>switch (tipo)\<close> applies, nothing is sent, \<^verbatim>\<open>enviado\<close> stays false and the
  handler ends without calling \<^verbatim>\<open>res\<close>.
\<close>

datatype mensaje_error =
  Cliente_o_deuda_no_encontrada | Plantilla_no_encontrada | Error_al_enviar | Validacion_rechazada

datatype respuesta_envio =
  Respuesta_exito comunicacion
| Respuesta_error nat mensaje_error "string option"
| Sin_respuesta

text \<open>
  The inner \<^verbatim>\<open>catch (envioError)\<close>: the state becomes \<^verbatim>\<open>error\<close> and the document is
  saved. When the store accepts it, the answer is 500 with the message of the exception
  as details; when the save is rejected, the exception leaves the inner \<^verbatim>\<open>catch\<close>
  and the outer one answers 500 with the message of the rejection.
\<close>

definition catch_envio :: "comunicacion \<Rightarrow> string \<Rightarrow> respuesta_envio \<times> escritura list" where
  "catch_envio com detalle =
     (if valida (com\<lparr>estado_com := Con_error\<rparr>)
      then (Respuesta_error 500 Error_al_enviar (Some detalle),
            [Guardar_comunicacion (com\<lparr>estado_com := Con_error\<rparr>)])
      else (Respuesta_error 500 Validacion_rechazada None, []))"

text \<open>
  The handler. After a send that the provider accepts, a rejected \<^verbatim>\<open>save\<close> throws
  inside the inner \<^verbatim>\<open>try\<close> and is caught like a failed send. The update of the
  metrics is reached only after an accepted \<^verbatim>\<open>save\<close>, hence never with a reference
  that does not cast.
\<close>

definition enviar :: "entorno \<Rightarrow> almacen \<Rightarrow> peticion \<Rightarrow> respuesta_envio \<times> escritura list" where
  "enviar ent alm pet =
     (case findById (clientes alm) (clienteId_r pet) of
        None \<Rightarrow> (Respuesta_error 404 Cliente_o_deuda_no_encontrada None, [])
      | Some c \<Rightarrow>
     (case findById (deudas alm) (deudaId_r pet) of
        None \<Rightarrow> (Respuesta_error 404 Cliente_o_deuda_no_encontrada None, [])
      | Some d \<Rightarrow>
     (case findOne_plantilla (plantillas alm) (tipo_r pet) (tono_r pet) (diasMora d) of
        None \<Rightarrow> (Respuesta_error 404 Plantilla_no_encontrada None, [])
      | Some p \<Rightarrow>
         (let com = \<lparr>clienteId = clienteId_r pet, deudaId = deudaId_r pet, tipo = tipo_r pet,
                     contenido = generar_contenido ent p c d, tono = tono_r pet,
                     estado_com = Enviado, campaniaId = campaniaId_r pet\<rparr>
          in case invocar_canal ent (tipo_r pet) of
               Some Envio_ok \<Rightarrow>
                 if valida (com\<lparr>estado_com := Entregado\<rparr>) then
                   (Respuesta_exito (com\<lparr>estado_com := Entregado\<rparr>),
                    Guardar_comunicacion (com\<lparr>estado_com := Entregado\<rparr>) #
                      (case campaniaId_r pet of
                         None \<Rightarrow> []
                       | Some (Id i) \<Rightarrow> [Incrementar_metricas i]
                       | Some (Malformado s) \<Rightarrow> []))
                 else catch_envio (com\<lparr>estado_com := Entregado\<rparr>) ''Comunicacion validation failed''
             | Some (Envio_falla detalle) \<Rightarrow> catch_envio com detalle
             | None \<Rightarrow> (Sin_respuesta, [])))))"

definition almacen_tras_enviar :: "entorno \<Rightarrow> almacen \<Rightarrow> peticion \<Rightarrow> almacen" where
  "almacen_tras_enviar ent alm pet = foldl aplicar alm (snd (enviar ent alm pet))"

section \<open>Comparing two campaigns\<close>

text \<open>
  The numbers that the quotient of two counters can be. A counter is a natural number
  (it starts at 0 and only \<^verbatim>\<open>$inc\<close> by 1 changes it). Dividing by zero gives
  \<^verbatim>\<open>NaN\<close> for \<^verbatim>\<open>0 / 0\<close> and \<^verbatim>\<open>Infinity\<close> otherwise, and both survive the
  multiplication by 100; \<^verbatim>\<open>toFixed(2)\<close> turns them into the texts \<^verbatim>\<open>NaN\<close> and
  \<^verbatim>\<open>Infinity\<close>.

  A finite number is the fraction that the double holds. Division and multiplication
  give the double nearest to the exact result, the one with the even significand in a
  tie: \<open>a_doble\<close> rounds a fraction that is not negative to 53 significant bits. The
  counters are taken to be below \<open>2 ^ 53\<close>, so that they are doubles themselves and
  no result leaves the range of normal doubles. \<open>bits\<close> is the length of a number in
  binary, and \<open>exponente x\<close> the integer \<open>e\<close> with \<open>2 ^ e \<le> x < 2 ^ (e + 1)\<close>, for
  \<open>x > 0\<close>.
\<close>

datatype numero = Finito rat | Infinito | NaN

function bits :: "int \<Rightarrow> int" where
  "bits k = (if k \<le> 0 then 0 else 1 + bits (k div 2))"
  by pat_completeness auto
termination
  by (relation "measure nat") auto

declare bits.simps [simp del]

definition dos_a_la :: "int \<Rightarrow> rat" where
  "dos_a_la e = (if 0 \<le> e then 2 ^ nat e else 1 / 2 ^ nat (- e))"

definition exponente :: "rat \<Rightarrow> int" where
  "exponente x =
     (case quotient_of x of
        (p, q) \<Rightarrow>
          (let d = bits p - bits q
           in if dos_a_la d \<le> x then d else d - 1))"

definition redondeo_par :: "rat \<Rightarrow> int" where
  "redondeo_par x =
     (let n = \<lfloor>x\<rfloor>; resto = x - of_int n
      in if resto < 1 / 2 then n
         else if 1 / 2 < resto then n + 1
         else if even n then n else n + 1)"

definition a_doble :: "rat \<Rightarrow> rat" where
  "a_doble x =
     (if x = 0 then 0
      else (let e = exponente x - 52
            in of_int (redondeo_par (x / dos_a_la e)) * dos_a_la e))"

definition dividir :: "nat \<Rightarrow> nat \<Rightarrow> numero" where
  "dividir a b =
     (if b = 0 then (if a = 0 then NaN else Infinito)
      else Finito (a_doble (rat_of_nat a / rat_of_nat b)))"

fun por_cien :: "numero \<Rightarrow> numero" where
  "por_cien (Finito r) = Finito (a_doble (r * 100))"
| "por_cien Infinito = Infinito"
| "por_cien NaN = NaN"

text \<open>
  \<^verbatim>\<open>toFixed(2)\<close> of a finite number that is not negative and below \<open>10 ^ 21\<close>: the
  integer \<open>n\<close> with \<open>n / 100\<close> nearest to the number, the larger one in a tie, written
  with a point before its last two digits.
\<close>

fun toFixed2 :: "numero \<Rightarrow> string" where
  "toFixed2 (Finito r) =
     (let n = nat \<lfloor>r * 100 + 1 / 2\<rfloor>
      in digitos (n div 100) @ ''.'' @ digitos (n mod 100 div 10) @ digitos (n mod 10))"
| "toFixed2 Infinito = ''Infinity''"
| "toFixed2 NaN = ''NaN''"

record tasas =
  nombre_t :: string
  metricas_t :: metricas_campania
  tasaApertura :: string
  tasaRespuesta :: string
  tasaConversion :: string

definition tasas_de :: "campania \<Rightarrow> tasas" where
  "tasas_de c =
     \<lparr>nombre_t = nombre_camp c,
      metricas_t = metricas c,
      tasaApertura = toFixed2 (por_cien (dividir (leidos (metricas c)) (enviados (metricas c)))),
      tasaRespuesta = toFixed2 (por_cien (dividir (respondidos (metricas c)) (enviados (metricas c)))),
      tasaConversion = toFixed2 (por_cien (dividir (pagos (metricas c)) (enviados (metricas c))))\<rparr>"

text \<open>
  \<^verbatim>\<open>GET /api/campanias/comparar/:campaniaA/:campaniaB\<close>. Reading a property of
  \<^verbatim>\<open>null\<close> throws a \<^verbatim>\<open>TypeError\<close>, which the \<^verbatim>\<open>catch\<close> of the handler answers
  with status 500 and the message of the exception.
\<close>

datatype excepcion = TypeError_propiedad_de_null

datatype respuesta_comparar =
  Comparacion "tasas \<times> tasas"
| Error_comparar nat excepcion

definition comparar :: "campania list \<Rightarrow> nat \<Rightarrow> nat \<Rightarrow> respuesta_comparar" where
  "comparar col campaniaA campaniaB =
     (case findById col campaniaA of
        None \<Rightarrow> Error_comparar 500 TypeError_propiedad_de_null
      | Some a \<Rightarrow>
          (case findById col campaniaB of
             None \<Rightarrow> Error_comparar 500 TypeError_propiedad_de_null
           | Some b \<Rightarrow> Comparacion (tasas_de a, tasas_de b)))"

section \<open>Example data\<close>

text \<open>
  A store with one customer, one debt 45 days in arrears, the formal email templates of
  thresholds 0, 30 and 90 and one new campaign; a dispatch request for it, and the same
  request with a campaign reference that is no identifier; and two environments, one
  whose provider accepts the message and one whose provider fails.
\<close>

definition almacen_ejemplo :: almacen where
  "almacen_ejemplo =
     \<lparr>clientes = [\<lparr>nombre = ''Ana'', email = ''ana@example.com'', telefono = ''+5215500000000''\<rparr>],
      deudas = [\<lparr>fechaVencimiento = 0, diasMora = 45, estado = Mora_media\<rparr>],
      plantillas =
        [\<lparr>nombre_p = ''T0'', tipo_p = Email, tono_p = Formal, diasMora_p = 0,
          cuerpo = ''Recordatorio para {nombre}'', activa = True\<rparr>,
         \<lparr>nombre_p = ''T30'', tipo_p = Email, tono_p = Formal, diasMora_p = 30,
          cuerpo = ''{nombre}: debe {monto} desde hace {dias_mora} dias. Gracias, {nombre}'', activa = True\<rparr>,
         \<lparr>nombre_p = ''T90'', tipo_p = Email, tono_p = Formal, diasMora_p = 90,
          cuerpo = ''Ultimo aviso para {nombre}'', activa = True\<rparr>],
      comunicaciones = [],
      campanias = [\<lparr>nombre_camp = ''A'',
                    metricas = \<lparr>enviados = 0, entregados = 0, leidos = 0, respondidos = 0, pagos = 0\<rparr>\<rparr>]\<rparr>"

definition peticion_ejemplo :: peticion where
  "peticion_ejemplo =
     \<lparr>clienteId_r = 0, deudaId_r = 0, tipo_r = ''email'', tono_r = ''formal'',
      campaniaId_r = Some (Id 0)\<rparr>"

definition peticion_malformada :: peticion where
  "peticion_malformada =
     \<lparr>clienteId_r = 0, deudaId_r = 0, tipo_r = ''email'', tono_r = ''formal'',
      campaniaId_r = Some (Malformado ''abc'')\<rparr>"

definition entorno_falla :: entorno where
  "entorno_falla =
     \<lparr>montoLocal = ''1,500'', fechaLocal = ''1/1/2024'', sendMail = Envio_falla ''ETIMEDOUT'',
      create_sms = Envio_ok, create_whatsapp = Envio_ok\<rparr>"


definition entorno_ok :: entorno where
  "entorno_ok =
     \<lparr>montoLocal = ''1,500'', fechaLocal = ''1/1/2024'', sendMail = Envio_ok,
      create_sms = Envio_ok, create_whatsapp = Envio_ok\<rparr>"

section \<open>Properties of the reclassification job\<close>

lemma crear_deuda_vencida:
  "hoy > fechaVencimiento d \<Longrightarrow>
   crear_deuda hoy d =
     d\<lparr>diasMora := (hoy - fechaVencimiento d) div ms_por_dia,
       estado := (if (hoy - fechaVencimiento d) div ms_por_dia \<le> 30 then Mora_temprana
                  else if (hoy - fechaVencimiento d) div ms_por_dia \<le> 90 then Mora_media
                  else Mora_avanzada)\<rparr>"
  by (simp add: crear_deuda_def Let_def)

lemma crear_deuda_no_vencida: "\<not> hoy > fechaVencimiento d \<Longrightarrow> crear_deuda hoy d = d"
  by (simp add: crear_deuda_def)

lemma findByIdAndUpdate_append:
  "findByIdAndUpdate (length pre) dias e (pre @ d # post) = pre @ d\<lparr>diasMora := dias, estado := e\<rparr> # post"
  by (simp add: findByIdAndUpdate_def)

text \<open>
  The loop over the snapshot, run on a collection \<open>pre @ xs @ post\<close> whose part \<open>xs\<close>
  holds no debt that stops it, reclassifies \<open>xs\<close> debt by debt and does not throw.
\<close>

lemma bucle_sin_fallo:
  "length pre = n \<Longrightarrow> (\<forall>k < length xs. \<not> bloquea fallan hoy (n + k) (xs ! k)) \<Longrightarrow>
   bucle_deudas fallan hoy (filter (\<lambda>(i, d). estado d \<noteq> Pagada) (enumerate n xs)) (pre @ xs @ post)
     = (pre @ map (reclasificada hoy) xs @ post, False)"
proof (induction xs arbitrary: n pre)
  case Nil
  then show ?case by simp
next
  case (Cons d ds)
  have resto: "\<forall>k < length ds. \<not> bloquea fallan hoy (Suc n + k) (ds ! k)"
    using Cons.prems(2) by fastforce
  have cabeza: "\<not> bloquea fallan hoy n d"
    using Cons.prems(2) by fastforce
  have len: "length (pre @ [x]) = Suc n" for x :: deuda
    using Cons.prems(1) by simp
  have IH: "bucle_deudas fallan hoy (filter (\<lambda>(i, d). estado d \<noteq> Pagada) (enumerate (Suc n) ds)) (pre @ x # ds @ post)
     = (pre @ x # map (reclasificada hoy) ds @ post, False)" for x
    using Cons.IH [OF len resto, of x] by simp
  show ?case
  proof (cases "estado d = Pagada")
    case True
    then show ?thesis using IH [of d] by (simp add: reclasificada_def)
  next
    case np: False
    show ?thesis
    proof (cases "hoy > fechaVencimiento d")
      case True
      then have nf: "n \<notin> fallan" using cabeza np by (simp add: bloquea_def)
      have upd: "findByIdAndUpdate n dias e (pre @ d # ds @ post) = pre @ d\<lparr>diasMora := dias, estado := e\<rparr> # ds @ post" for dias e
        using findByIdAndUpdate_append [of pre dias e d "ds @ post"] Cons.prems(1) by simp
      show ?thesis using True np nf
        by (simp add: Let_def upd IH reclasificada_def crear_deuda_vencida)
    next
      case False
      then show ?thesis using np IH [of d]
        by (simp add: reclasificada_def crear_deuda_no_vencida)
    qed
  qed
qed

lemma bucle_append:
  "bucle_deudas fallan hoy (as @ bs) col =
     (case bucle_deudas fallan hoy as col of
        (c, lanzo) \<Rightarrow> if lanzo then (c, True) else bucle_deudas fallan hoy bs c)"
  by (induction fallan hoy as col rule: bucle_deudas.induct) (simp_all add: Let_def)

lemma bucle_primer_fallo:
  assumes "\<forall>k < length xs. \<not> bloquea fallan hoy k (xs ! k)"
    and "bloquea fallan hoy (length xs) d"
  shows "bucle_deudas fallan hoy (filter (\<lambda>(i, d). estado d \<noteq> Pagada) (enumerate 0 (xs @ d # ys))) (xs @ d # ys)
     = (map (reclasificada hoy) xs @ d # ys, True)"
proof -
  have a: "bucle_deudas fallan hoy (filter (\<lambda>(i, d). estado d \<noteq> Pagada) (enumerate 0 xs)) ([] @ xs @ d # ys)
     = ([] @ map (reclasificada hoy) xs @ d # ys, False)"
    by (rule bucle_sin_fallo) (use assms(1) in simp_all)
  show ?thesis using assms(2) a
    by (simp add: enumerate_append_eq bucle_append bloquea_def Let_def)
qed


lemma primer_bloqueo:
  assumes "\<exists>k < length col. bloquea fallan hoy k (col ! k)"
  shows "\<exists>xs d ys. col = xs @ d # ys \<and> (\<forall>k < length xs. \<not> bloquea fallan hoy k (xs ! k))
           \<and> bloquea fallan hoy (length xs) d"
proof -
  define m where "m = (LEAST k. k < length col \<and> bloquea fallan hoy k (col ! k))"
  have "\<exists>k. k < length col \<and> bloquea fallan hoy k (col ! k)"
    using assms by blast
  then have m: "m < length col \<and> bloquea fallan hoy m (col ! m)"
    unfolding m_def by (rule LeastI_ex)
  have antes: "\<not> (k < length col \<and> bloquea fallan hoy k (col ! k))" if "k < m" for k
    using that unfolding m_def by (rule not_less_Least)
  have "col = take m col @ col ! m # drop (Suc m) col"
    using m by (simp add: id_take_nth_drop)
  moreover have "\<forall>k < length (take m col). \<not> bloquea fallan hoy k (take m col ! k)"
    using antes m by auto
  moreover have "bloquea fallan hoy (length (take m col)) (col ! m)"
    using m by (simp add: min_absorb2)
  ultimately show ?thesis by blast
qed

lemma actualizar_sin_fallo:
  assumes "\<forall>k < length col. \<not> bloquea fallan hoy k (col ! k)"
  shows "actualizarDiasMora fallan hoy col = (map (reclasificada hoy) col, Actualizados_correctamente)"
  using bucle_sin_fallo [of "[]" 0 col fallan hoy "[]"] assms
  by (simp add: actualizarDiasMora_def find_no_pagadas_def)

lemma actualizar_primer_fallo:
  assumes "\<forall>k < length xs. \<not> bloquea fallan hoy k (xs ! k)"
    and "bloquea fallan hoy (length xs) d"
  shows "actualizarDiasMora fallan hoy (xs @ d # ys) = (map (reclasificada hoy) xs @ d # ys, Error_actualizando)"
  using bucle_primer_fallo [OF assms, of ys]
  by (simp add: actualizarDiasMora_def find_no_pagadas_def)

lemma crear_deuda_idem: "crear_deuda hoy (crear_deuda hoy d) = crear_deuda hoy d"
  by (simp add: crear_deuda_def Let_def)

lemma reclasificada_idem: "reclasificada hoy (reclasificada hoy d) = reclasificada hoy d"
  by (simp add: reclasificada_def crear_deuda_def Let_def)

lemma bloquea_reclasificada: "bloquea fallan hoy k (reclasificada hoy d) = bloquea fallan hoy k d"
  by (simp add: bloquea_def reclasificada_def crear_deuda_def Let_def)

text \<open>
  Claim C9. Running the job a second time with the same date (and the same updates
  rejected by the store, if any) returns the collection and the console record of the
  first run: the second run changes nothing. The classifier of the create-debt handler,
  applied twice with the same date, gives what one application gives.
\<close>

theorem reclasificacion_idempotente:
  "actualizarDiasMora fallan hoy (fst (actualizarDiasMora fallan hoy col)) = actualizarDiasMora fallan hoy col
   \<and> crear_deuda hoy (crear_deuda hoy d) = crear_deuda hoy d"
proof (cases "\<exists>k < length col. bloquea fallan hoy k (col ! k)")
  case False
  then have sin: "\<forall>k < length col. \<not> bloquea fallan hoy k (col ! k)" by blast
  have sin': "\<forall>k < length (map (reclasificada hoy) col). \<not> bloquea fallan hoy k (map (reclasificada hoy) col ! k)"
    using sin by (simp add: bloquea_reclasificada)
  show ?thesis
    using actualizar_sin_fallo [OF sin] actualizar_sin_fallo [OF sin']
    by (simp add: reclasificada_idem crear_deuda_idem)
next
  case True
  then obtain xs d ys where col: "col = xs @ d # ys"
    and xs: "\<forall>k < length xs. \<not> bloquea fallan hoy k (xs ! k)"
    and d: "bloquea fallan hoy (length xs) d"
    using primer_bloqueo by blast
  have xs': "\<forall>k < length (map (reclasificada hoy) xs). \<not> bloquea fallan hoy k (map (reclasificada hoy) xs ! k)"
    using xs by (simp add: bloquea_reclasificada)
  have d': "bloquea fallan hoy (length (map (reclasificada hoy) xs)) d"
    using d by simp
  show ?thesis
    using actualizar_primer_fallo [OF xs d, of ys] actualizar_primer_fallo [OF xs' d', of ys]
    by (simp add: col reclasificada_idem crear_deuda_idem)
qed

text \<open>
  Claim C8, as amended. When the update of debt \<open>i\<close> is the first that the store
  rejects, the job stops there: the debts before \<open>i\<close> are reclassified and persisted,
  debt \<open>i\<close> and every later debt are left as they were, and the failure is written to
  the console by the enclosing \<^verbatim>\<open>catch\<close> (the job returns; nothing is thrown further).
\<close>

theorem barrido_se_detiene_en_primer_fallo:
  assumes "i < length col" and "i \<in> fallan"
    and "estado (col ! i) \<noteq> Pagada" and "hoy > fechaVencimiento (col ! i)"
    and "\<forall>k < i. \<not> (k \<in> fallan \<and> estado (col ! k) \<noteq> Pagada \<and> hoy > fechaVencimiento (col ! k))"
  shows "actualizarDiasMora fallan hoy col =
           (map (\<lambda>d. if estado d = Pagada then d else crear_deuda hoy d) (take i col) @ drop i col,
            Error_actualizando)"
proof -
  have col: "col = take i col @ col ! i # drop (Suc i) col"
    using assms(1) by (simp add: id_take_nth_drop)
  have antes: "\<forall>k < length (take i col). \<not> bloquea fallan hoy k (take i col ! k)"
    using assms(1,5) by (auto simp: bloquea_def)
  have aqui: "bloquea fallan hoy (length (take i col)) (col ! i)"
    using assms(1-4) by (simp add: bloquea_def min_absorb2)
  have r: "reclasificada hoy = (\<lambda>d. if estado d = Pagada then d else crear_deuda hoy d)"
    by (rule ext) (simp add: reclasificada_def)
  have "actualizarDiasMora fallan hoy (take i col @ col ! i # drop (Suc i) col) =
          (map (reclasificada hoy) (take i col) @ col ! i # drop (Suc i) col, Error_actualizando)"
    by (rule actualizar_primer_fallo [OF antes aqui])
  moreover have "col ! i # drop (Suc i) col = drop i col"
    using assms(1) by (simp add: Cons_nth_drop_Suc)
  ultimately show ?thesis using col r by simp
qed

text \<open>
  Claim C2. The query of the job excludes \<^verbatim>\<open>pagada\<close> only, so a debt in the other
  terminal state, \<^verbatim>\<open>cancelada\<close>, is reclassified like an open one: 45 days after its
  due date it is rewritten to \<^verbatim>\<open>mora_media\<close> with 45 days in arrears.
\<close>

theorem terminal_cancelada_sobrescrita:
  "actualizarDiasMora {} (45 * ms_por_dia)
     [\<lparr>fechaVencimiento = 0, diasMora = 0, estado = Cancelada\<rparr>]
   = ([\<lparr>fechaVencimiento = 0, diasMora = 45, estado = Mora_media\<rparr>],
      Actualizados_correctamente)"
  by (simp add: actualizarDiasMora_def find_no_pagadas_def findByIdAndUpdate_def ms_por_dia_def)

text \<open>
  Claim C8 as stated fails: with two overdue debts and the update of the first one
  rejected, the second debt is not processed; it keeps 0 days and \<^verbatim>\<open>pendiente\<close>,
  where a run without the failure gives it 45 days and \<^verbatim>\<open>mora_media\<close>.
\<close>

theorem fallo_aborta_resto_contraejemplo:
  "actualizarDiasMora {0} (45 * ms_por_dia)
     [\<lparr>fechaVencimiento = 0, diasMora = 0, estado = Pendiente\<rparr>,
      \<lparr>fechaVencimiento = 0, diasMora = 0, estado = Pendiente\<rparr>]
   = ([\<lparr>fechaVencimiento = 0, diasMora = 0, estado = Pendiente\<rparr>,
       \<lparr>fechaVencimiento = 0, diasMora = 0, estado = Pendiente\<rparr>],
      Error_actualizando)
   \<and> actualizarDiasMora {} (45 * ms_por_dia)
     [\<lparr>fechaVencimiento = 0, diasMora = 0, estado = Pendiente\<rparr>,
      \<lparr>fechaVencimiento = 0, diasMora = 0, estado = Pendiente\<rparr>]
   = ([\<lparr>fechaVencimiento = 0, diasMora = 45, estado = Mora_media\<rparr>,
       \<lparr>fechaVencimiento = 0, diasMora = 45, estado = Mora_media\<rparr>],
      Actualizados_correctamente)"
  by (simp add: actualizarDiasMora_def find_no_pagadas_def findByIdAndUpdate_def ms_por_dia_def)


text \<open>
  Claim C1, as amended. For a debt in no terminal state the job persists what the
  classifier of the create-debt handler computes. When the reference date is after the
  due date, the days in arrears are the whole days elapsed (the floor of the difference,
  which is not negative) and the state follows the thresholds: up to 30 days (0
  included) \<^verbatim>\<open>mora_temprana\<close>, 31 to 90 \<^verbatim>\<open>mora_media\<close>, 91 and more
  \<^verbatim>\<open>mora_avanzada\<close>. When the reference date is not after the due date, days and state
  stay as stored.
\<close>

theorem clasificador_dias_y_tramo:
  assumes "j < length col" and "col ! j = d" and "estado d \<noteq> Pagada" and "estado d \<noteq> Cancelada"
  shows "fst (actualizarDiasMora {} hoy col) ! j = crear_deuda hoy d
    \<and> (hoy > fechaVencimiento d \<longrightarrow>
         diasMora (crear_deuda hoy d) = max 0 ((hoy - fechaVencimiento d) div ms_por_dia)
         \<and> diasMora (crear_deuda hoy d) * ms_por_dia \<le> hoy - fechaVencimiento d
         \<and> hoy - fechaVencimiento d < (diasMora (crear_deuda hoy d) + 1) * ms_por_dia
         \<and> (diasMora (crear_deuda hoy d) \<le> 30 \<longrightarrow> estado (crear_deuda hoy d) = Mora_temprana)
         \<and> (31 \<le> diasMora (crear_deuda hoy d) \<and> diasMora (crear_deuda hoy d) \<le> 90
              \<longrightarrow> estado (crear_deuda hoy d) = Mora_media)
         \<and> (91 \<le> diasMora (crear_deuda hoy d) \<longrightarrow> estado (crear_deuda hoy d) = Mora_avanzada))
    \<and> (hoy \<le> fechaVencimiento d \<longrightarrow> crear_deuda hoy d = d)"
proof -
  have sin: "\<forall>k < length col. \<not> bloquea {} hoy k (col ! k)"
    by (simp add: bloquea_def)
  have barrido: "fst (actualizarDiasMora {} hoy col) ! j = crear_deuda hoy d"
    using actualizar_sin_fallo [OF sin] assms(1-3) by (simp add: reclasificada_def)
  have pos: "0 < ms_por_dia" by (simp add: ms_por_dia_def)
  have vencida: "diasMora (crear_deuda hoy d) = max 0 ((hoy - fechaVencimiento d) div ms_por_dia)
         \<and> diasMora (crear_deuda hoy d) * ms_por_dia \<le> hoy - fechaVencimiento d
         \<and> hoy - fechaVencimiento d < (diasMora (crear_deuda hoy d) + 1) * ms_por_dia
         \<and> (diasMora (crear_deuda hoy d) \<le> 30 \<longrightarrow> estado (crear_deuda hoy d) = Mora_temprana)
         \<and> (31 \<le> diasMora (crear_deuda hoy d) \<and> diasMora (crear_deuda hoy d) \<le> 90
              \<longrightarrow> estado (crear_deuda hoy d) = Mora_media)
         \<and> (91 \<le> diasMora (crear_deuda hoy d) \<longrightarrow> estado (crear_deuda hoy d) = Mora_avanzada)"
    if v: "hoy > fechaVencimiento d"
  proof -
    let ?q = "(hoy - fechaVencimiento d) div ms_por_dia"
    have q0: "0 \<le> ?q" using v pos by (simp add: pos_imp_zdiv_nonneg_iff)
    have dm: "diasMora (crear_deuda hoy d) = ?q"
      using v by (simp add: crear_deuda_vencida)
    have desc: "?q * ms_por_dia + (hoy - fechaVencimiento d) mod ms_por_dia = hoy - fechaVencimiento d"
      by (rule div_mult_mod_eq)
    have r0: "0 \<le> (hoy - fechaVencimiento d) mod ms_por_dia"
      using pos by (rule pos_mod_sign)
    have r1: "(hoy - fechaVencimiento d) mod ms_por_dia < ms_por_dia"
      using pos by (rule pos_mod_bound)
    have lo: "?q * ms_por_dia \<le> hoy - fechaVencimiento d"
      using desc r0 by linarith
    have hi: "hoy - fechaVencimiento d < (?q + 1) * ms_por_dia"
    proof -
      have "(?q + 1) * ms_por_dia = ?q * ms_por_dia + ms_por_dia"
        by (simp add: distrib_right)
      then show ?thesis using desc r1 by linarith
    qed
    have e: "estado (crear_deuda hoy d) =
        (if ?q \<le> 30 then Mora_temprana else if ?q \<le> 90 then Mora_media else Mora_avanzada)"
      using v by (simp add: crear_deuda_vencida)
    show ?thesis using q0 dm lo hi e by simp
  qed
  have no_vencida: "crear_deuda hoy d = d" if "hoy \<le> fechaVencimiento d"
    using that by (simp add: crear_deuda_no_vencida)
  show ?thesis using barrido vencida no_vencida by blast
qed

text \<open>The amended claim C1 at day 31, the first day of \<^verbatim>\<open>mora_media\<close>.\<close>

theorem clasificador_dias_y_tramo_witness:
  "(0::nat) < length [\<lparr>fechaVencimiento = 0, diasMora = 0, estado = Pendiente\<rparr>]
   \<and> estado \<lparr>fechaVencimiento = 0, diasMora = 0, estado = Pendiente\<rparr> \<noteq> Pagada
   \<and> estado \<lparr>fechaVencimiento = 0, diasMora = 0, estado = Pendiente\<rparr> \<noteq> Cancelada
   \<and> 31 * ms_por_dia > fechaVencimiento \<lparr>fechaVencimiento = 0, diasMora = 0, estado = Pendiente\<rparr>
   \<and> fst (actualizarDiasMora {} (31 * ms_por_dia) [\<lparr>fechaVencimiento = 0, diasMora = 0, estado = Pendiente\<rparr>]) ! 0
       = crear_deuda (31 * ms_por_dia) \<lparr>fechaVencimiento = 0, diasMora = 0, estado = Pendiente\<rparr>
   \<and> diasMora (crear_deuda (31 * ms_por_dia) \<lparr>fechaVencimiento = 0, diasMora = 0, estado = Pendiente\<rparr>) = 31
   \<and> estado (crear_deuda (31 * ms_por_dia) \<lparr>fechaVencimiento = 0, diasMora = 0, estado = Pendiente\<rparr>) = Mora_media"
  using clasificador_dias_y_tramo [of 0 "[\<lparr>fechaVencimiento = 0, diasMora = 0, estado = Pendiente\<rparr>]"
      "\<lparr>fechaVencimiento = 0, diasMora = 0, estado = Pendiente\<rparr>" "31 * ms_por_dia"]
  by (simp add: ms_por_dia_def)

text \<open>
  Claim C1 as stated fails: one millisecond after the due date the days in arrears are 0,
  and the state assigned is \<^verbatim>\<open>mora_temprana\<close>, not \<^verbatim>\<open>pendiente\<close>, in the
  create-debt handler and in the job alike.
\<close>

theorem cero_dias_vencida_contraejemplo:
  "max 0 ((1 - 0) div ms_por_dia) = 0
   \<and> crear_deuda 1 \<lparr>fechaVencimiento = 0, diasMora = 0, estado = Pendiente\<rparr>
       = \<lparr>fechaVencimiento = 0, diasMora = 0, estado = Mora_temprana\<rparr>
   \<and> actualizarDiasMora {} 1 [\<lparr>fechaVencimiento = 0, diasMora = 0, estado = Pendiente\<rparr>]
       = ([\<lparr>fechaVencimiento = 0, diasMora = 0, estado = Mora_temprana\<rparr>], Actualizados_correctamente)"
  by (simp add: crear_deuda_def actualizarDiasMora_def find_no_pagadas_def findByIdAndUpdate_def ms_por_dia_def)

text \<open>The amended claim C8 on three overdue debts, the update of the second one rejected.\<close>

theorem barrido_se_detiene_en_primer_fallo_witness:
  "(1::nat) < length [\<lparr>fechaVencimiento = 0, diasMora = 0, estado = Pendiente\<rparr>,
                      \<lparr>fechaVencimiento = 0, diasMora = 0, estado = Pendiente\<rparr>,
                      \<lparr>fechaVencimiento = 0, diasMora = 0, estado = Pendiente\<rparr>]
   \<and> (1::nat) \<in> {1}
   \<and> actualizarDiasMora {1} (45 * ms_por_dia)
        [\<lparr>fechaVencimiento = 0, diasMora = 0, estado = Pendiente\<rparr>,
         \<lparr>fechaVencimiento = 0, diasMora = 0, estado = Pendiente\<rparr>,
         \<lparr>fechaVencimiento = 0, diasMora = 0, estado = Pendiente\<rparr>]
      = ([\<lparr>fechaVencimiento = 0, diasMora = 45, estado = Mora_media\<rparr>,
          \<lparr>fechaVencimiento = 0, diasMora = 0, estado = Pendiente\<rparr>,
          \<lparr>fechaVencimiento = 0, diasMora = 0, estado = Pendiente\<rparr>], Error_actualizando)"
  using barrido_se_detiene_en_primer_fallo [of 1
        "[\<lparr>fechaVencimiento = 0, diasMora = 0, estado = Pendiente\<rparr>,
          \<lparr>fechaVencimiento = 0, diasMora = 0, estado = Pendiente\<rparr>,
          \<lparr>fechaVencimiento = 0, diasMora = 0, estado = Pendiente\<rparr>]" "{1}" "45 * ms_por_dia"]
  by (simp add: ms_por_dia_def crear_deuda_def)

text \<open>
  The half of claim C2 that holds: a debt in state \<^verbatim>\<open>pagada\<close> is never touched by
  the job.
\<close>

lemma pagada_no_cambia:
  assumes "j < length col" and "estado (col ! j) = Pagada"
  shows "fst (actualizarDiasMora fallan hoy col) ! j = col ! j"
proof (cases "\<exists>k < length col. bloquea fallan hoy k (col ! k)")
  case False
  then have sin: "\<forall>k < length col. \<not> bloquea fallan hoy k (col ! k)" by blast
  show ?thesis using actualizar_sin_fallo [OF sin] assms by (simp add: reclasificada_def)
next
  case True
  then obtain xs d ys where col: "col = xs @ d # ys"
    and xs: "\<forall>k < length xs. \<not> bloquea fallan hoy k (xs ! k)"
    and d: "bloquea fallan hoy (length xs) d"
    using primer_bloqueo by blast
  have r: "fst (actualizarDiasMora fallan hoy col) = map (reclasificada hoy) xs @ d # ys"
    using actualizar_primer_fallo [OF xs d, of ys] col by simp
  show ?thesis
  proof (cases "j < length xs")
    case True
    then have "estado (xs ! j) = Pagada" using assms(2) col by (simp add: nth_append)
    then show ?thesis using True r col by (simp add: nth_append reclasificada_def)
  next
    case False
    then show ?thesis using r col by (simp add: nth_append)
  qed
qed

section \<open>Properties of template selection, rendering and dispatch\<close>

lemma mayor_diasMora_None: "mayor_diasMora ps = None \<longleftrightarrow> ps = []"
  by (cases ps) (auto split: option.splits)

lemma mayor_diasMora_Some:
  "mayor_diasMora ps = Some p \<Longrightarrow> p \<in> set ps \<and> (\<forall>q \<in> set ps. diasMora_p q \<le> diasMora_p p)"
proof (induction ps arbitrary: p)
  case Nil
  then show ?case by simp
next
  case (Cons a ps)
  show ?case
  proof (cases "mayor_diasMora ps")
    case None
    then have "ps = []" by (simp add: mayor_diasMora_None)
    then show ?thesis using Cons.prems by simp
  next
    case (Some q)
    have q: "q \<in> set ps \<and> (\<forall>r \<in> set ps. diasMora_p r \<le> diasMora_p q)"
      using Cons.IH [OF Some] .
    show ?thesis
    proof (cases "diasMora_p a < diasMora_p q")
      case True
      then have "p = q" using Cons.prems Some by simp
      then show ?thesis using q True by auto
    next
      case False
      then have "p = a" using Cons.prems Some by simp
      then show ?thesis using q False by fastforce
    qed
  qed
qed

lemma findOne_plantilla_Some:
  assumes "findOne_plantilla cat canal tonalidad dias = Some p"
  shows "p \<in> set cat \<and> coincide canal tonalidad dias p
         \<and> (\<forall>q \<in> set cat. coincide canal tonalidad dias q \<longrightarrow> diasMora_p q \<le> diasMora_p p)"
  using mayor_diasMora_Some [of "filter (coincide canal tonalidad dias) cat" p] assms
  by (simp add: findOne_plantilla_def)

lemma findOne_plantilla_None:
  assumes "findOne_plantilla cat canal tonalidad dias = None"
  shows "\<forall>q \<in> set cat. \<not> coincide canal tonalidad dias q"
  using assms by (simp add: findOne_plantilla_def mayor_diasMora_None filter_empty_conv)


lemma enviar_sin_plantilla:
  assumes "findById (clientes alm) (clienteId_r pet) = Some c"
    and "findById (deudas alm) (deudaId_r pet) = Some d"
    and "findOne_plantilla (plantillas alm) (tipo_r pet) (tono_r pet) (diasMora d) = None"
  shows "enviar ent alm pet = (Respuesta_error 404 Plantilla_no_encontrada None, [])"
  using assms by (simp add: enviar_def)





text \<open>
  Claim C5. Whatever the catalog, channel, tone and days in arrears, a template that is
  selected belongs to the catalog, is active, has the channel and the tone asked for and
  a threshold not above the days in arrears, and no template that passes the filter has
  a larger threshold. When nothing is selected, no template of the catalog passes the
  filter; the dispatch handler then answers 404 with the template-not-found error and
  writes nothing.
\<close>

theorem seleccion_de_plantilla:
  "(case findOne_plantilla cat canal tonalidad dias of
      Some p \<Rightarrow>
        p \<in> set cat \<and> activa p \<and> nombre_canal (tipo_p p) = canal \<and> nombre_tono (tono_p p) = tonalidad
        \<and> diasMora_p p \<le> dias
        \<and> (\<forall>q \<in> set cat. coincide canal tonalidad dias q \<longrightarrow> diasMora_p q \<le> diasMora_p p)
    | None \<Rightarrow> \<forall>q \<in> set cat. \<not> coincide canal tonalidad dias q)
   \<and> (findById (clientes alm) (clienteId_r pet) = Some c
        \<and> findById (deudas alm) (deudaId_r pet) = Some d
        \<and> findOne_plantilla (plantillas alm) (tipo_r pet) (tono_r pet) (diasMora d) = None
      \<longrightarrow> enviar ent alm pet = (Respuesta_error 404 Plantilla_no_encontrada None, []))"
proof (intro conjI impI)
  show "case findOne_plantilla cat canal tonalidad dias of
      Some p \<Rightarrow>
        p \<in> set cat \<and> activa p \<and> nombre_canal (tipo_p p) = canal \<and> nombre_tono (tono_p p) = tonalidad
        \<and> diasMora_p p \<le> dias
        \<and> (\<forall>q \<in> set cat. coincide canal tonalidad dias q \<longrightarrow> diasMora_p q \<le> diasMora_p p)
    | None \<Rightarrow> \<forall>q \<in> set cat. \<not> coincide canal tonalidad dias q"
  proof (cases "findOne_plantilla cat canal tonalidad dias")
    case None
    then show ?thesis using findOne_plantilla_None [OF None] by simp
  next
    case (Some p)
    then show ?thesis using findOne_plantilla_Some [OF Some] by (simp add: coincide_def)
  qed
next
  assume "findById (clientes alm) (clienteId_r pet) = Some c
        \<and> findById (deudas alm) (deudaId_r pet) = Some d
        \<and> findOne_plantilla (plantillas alm) (tipo_r pet) (tono_r pet) (diasMora d) = None"
  then show "enviar ent alm pet = (Respuesta_error 404 Plantilla_no_encontrada None, [])"
    using enviar_sin_plantilla by blast
qed



text \<open>
  Claim C10. When one of the two identifiers names no stored campaign, the comparison
  answers with status 500 and the exception raised by reading a property of
  \<^verbatim>\<open>null\<close>; it never answers 404.
\<close>

theorem comparar_campania_inexistente:
  assumes "findById col campaniaA = None \<or> findById col campaniaB = None"
  shows "comparar col campaniaA campaniaB = Error_comparar 500 TypeError_propiedad_de_null
    \<and> (\<forall>e. comparar col campaniaA campaniaB \<noteq> Error_comparar 404 e)"
  using assms by (auto simp: comparar_def split: option.splits)


text \<open>
  Claim C5 on the catalog with thresholds 0, 30 and 90: at 45 days the template of
  threshold 30 is selected; for a channel without templates the handler answers 404.
\<close>

theorem seleccion_de_plantilla_witness:
  "findOne_plantilla (plantillas almacen_ejemplo) ''email'' ''formal'' 45 =
     Some \<lparr>nombre_p = ''T30'', tipo_p = Email, tono_p = Formal, diasMora_p = 30,
           cuerpo = ''{nombre}: debe {monto} desde hace {dias_mora} dias. Gracias, {nombre}'',
           activa = True\<rparr>
   \<and> findById (clientes almacen_ejemplo) 0 =
       Some \<lparr>nombre = ''Ana'', email = ''ana@example.com'', telefono = ''+5215500000000''\<rparr>
   \<and> findById (deudas almacen_ejemplo) 0 = Some \<lparr>fechaVencimiento = 0, diasMora = 45, estado = Mora_media\<rparr>
   \<and> findOne_plantilla (plantillas almacen_ejemplo) ''sms'' ''formal'' 45 = None
   \<and> enviar entorno_ok almacen_ejemplo
        \<lparr>clienteId_r = 0, deudaId_r = 0, tipo_r = ''sms'', tono_r = ''formal'', campaniaId_r = None\<rparr>
       = (Respuesta_error 404 Plantilla_no_encontrada None, [])"
  using seleccion_de_plantilla [of "plantillas almacen_ejemplo" "''email''" "''formal''" 45 almacen_ejemplo
      "\<lparr>clienteId_r = 0, deudaId_r = 0, tipo_r = ''sms'', tono_r = ''formal'', campaniaId_r = None\<rparr>"
      "\<lparr>nombre = ''Ana'', email = ''ana@example.com'', telefono = ''+5215500000000''\<rparr>"
      "\<lparr>fechaVencimiento = 0, diasMora = 45, estado = Mora_media\<rparr>" entorno_ok]
  by (simp add: almacen_ejemplo_def findOne_plantilla_def coincide_def findById_def)



text \<open>
  The same happens without a campaign when the rendered content is empty: for a customer
  whose name is the replacement pattern \<^verbatim>\<open>$'\<close> and the template \<^verbatim>\<open>{nombre}\<close>, the
  content is the text after the match, which is empty.
\<close>

lemma contenido_vacio_no_se_guarda:
  "enviar entorno_ok
     \<lparr>clientes = [\<lparr>nombre = [CHR ''$'', CHR 0x27], email = ''a@example.com'', telefono = ''+50212345678''\<rparr>],
      deudas = [\<lparr>fechaVencimiento = 0, diasMora = 45, estado = Mora_media\<rparr>],
      plantillas = [\<lparr>nombre_p = ''T'', tipo_p = Sms, tono_p = Amigable, diasMora_p = 0,
                     cuerpo = ''{nombre}'', activa = True\<rparr>],
      comunicaciones = [], campanias = []\<rparr>
     \<lparr>clienteId_r = 0, deudaId_r = 0, tipo_r = ''sms'', tono_r = ''amigable'', campaniaId_r = None\<rparr>
   = (Respuesta_error 500 Validacion_rechazada None, [])"
  by (simp add: almacen_ejemplo_def peticion_ejemplo_def peticion_malformada_def entorno_ok_def
      entorno_falla_def findOne_plantilla_def coincide_def findById_def enviar_def catch_envio_def
      valida_def castable_def invocar_canal_def almacen_tras_enviar_def generar_contenido_def
      replace_js_def texto_entero_def digitos.simps Let_def)



text \<open>
  Claim C4. \<^verbatim>\<open>replace\<close> with a string pattern replaces the first occurrence only:
  a template that names the customer twice keeps the second \<^verbatim>\<open>{nombre}\<close> in the
  rendered content, in the renderer and in the communication the handler returns.
\<close>

theorem segunda_aparicion_sin_reemplazar:
  "generar_contenido entorno_ok
     \<lparr>nombre_p = ''T'', tipo_p = Email, tono_p = Formal, diasMora_p = 0,
      cuerpo = ''{nombre}: gracias, {nombre}'', activa = True\<rparr>
     \<lparr>nombre = ''Ana'', email = ''ana@example.com'', telefono = ''+5215500000000''\<rparr>
     \<lparr>fechaVencimiento = 0, diasMora = 45, estado = Mora_media\<rparr>
   = ''Ana: gracias, {nombre}''
   \<and> fst (enviar entorno_ok almacen_ejemplo peticion_ejemplo) =
       Respuesta_exito
         \<lparr>clienteId = 0, deudaId = 0, tipo = ''email'',
          contenido = ''Ana: debe $1,500 desde hace 45 dias. Gracias, {nombre}'',
          tono = ''formal'', estado_com = Entregado, campaniaId = Some (Id 0)\<rparr>"
  by (simp add: almacen_ejemplo_def peticion_ejemplo_def peticion_malformada_def entorno_ok_def
      entorno_falla_def findOne_plantilla_def coincide_def findById_def enviar_def catch_envio_def
      valida_def castable_def invocar_canal_def almacen_tras_enviar_def generar_contenido_def
      replace_js_def texto_entero_def digitos.simps Let_def)

text \<open>
  Claim C6. For two campaigns that have sent nothing (the counters a new campaign starts
  with) every rate is \<^verbatim>\<open>0 / 0 * 100\<close>, and the comparison returns the text
  \<^verbatim>\<open>NaN\<close> for each of them, not 0.
\<close>

theorem tasas_sin_envios_NaN:
  "comparar
     [\<lparr>nombre_camp = ''A'',
       metricas = \<lparr>enviados = 0, entregados = 0, leidos = 0, respondidos = 0, pagos = 0\<rparr>\<rparr>,
      \<lparr>nombre_camp = ''B'',
       metricas = \<lparr>enviados = 0, entregados = 0, leidos = 0, respondidos = 0, pagos = 0\<rparr>\<rparr>] 0 1
   = Comparacion
       (\<lparr>nombre_t = ''A'',
         metricas_t = \<lparr>enviados = 0, entregados = 0, leidos = 0, respondidos = 0, pagos = 0\<rparr>,
         tasaApertura = ''NaN'', tasaRespuesta = ''NaN'', tasaConversion = ''NaN''\<rparr>,
        \<lparr>nombre_t = ''B'',
         metricas_t = \<lparr>enviados = 0, entregados = 0, leidos = 0, respondidos = 0, pagos = 0\<rparr>,
         tasaApertura = ''NaN'', tasaRespuesta = ''NaN'', tasaConversion = ''NaN''\<rparr>)"
  by (simp add: comparar_def findById_def tasas_de_def dividir_def)

text \<open>Claim C10 on a store of one campaign and the identifier 7.\<close>

theorem comparar_campania_inexistente_witness:
  "findById (campanias almacen_ejemplo) 7 = None
   \<and> comparar (campanias almacen_ejemplo) 0 7 = Error_comparar 500 TypeError_propiedad_de_null"
  using comparar_campania_inexistente [of "campanias almacen_ejemplo" 0 7]
  by (simp add: almacen_ejemplo_def findById_def)

end
